theory Spec2Isabelle
  imports Complex_Main
begin

section \<open>JavaScript numbers\<close>

text \<open>
  The calculator works on JavaScript numbers, the doubles of IEEE 754 (binary64). A
  number is NaN, one of the two infinities, or finite, and a finite number is given by
  its real value. Every arithmetic operation returns the exact result rounded to the
  nearest double, ties going to the even significand; a result beyond the range of the
  doubles is an infinity, and one too small becomes a subnormal number or zero.

  There is one zero, taken as \<open>+0\<close>: the only divisor that the program computes is a
  difference \<open>1 - d\<close> and the only base of a power is a sum \<open>1 + r\<close>, and both are \<open>+0\<close>
  whenever they are zero.
\<close>

datatype jsnum = NaN | PInf | NInf | Fin real

definition inf_of :: "real \<Rightarrow> jsnum" where
  \<comment> \<open>the infinity with the sign of \<open>s\<close>; NaN when there is no sign\<close>
  "inf_of s = (if 0 < s then PInf else if s < 0 then NInf else NaN)"

definition rne :: "real \<Rightarrow> int" where
  \<comment> \<open>the nearest integer, the even one of the two when they are equally near\<close>
  "rne y =
     (let f = \<lfloor>y\<rfloor>; d = y - of_int f
      in if d < 1 / 2 then f else if 1 / 2 < d then f + 1 else if even f then f else f + 1)"

text \<open>
  Rounding a real to a double. A double with exponent \<open>e\<close> is a multiple of
  \<open>2 powi (e - 52)\<close>, with \<open>e\<close> from -1022 (which the subnormal numbers share) to 1023.
  The largest double is \<open>2 ^ 1024 - 2 ^ 971\<close>; from half a step above it, a value rounds
  to an infinity.
\<close>

definition round64 :: "real \<Rightarrow> jsnum" where
  "round64 x =
     (if x = 0 then Fin 0
      else if 2 ^ 1024 - 2 ^ 970 \<le> \<bar>x\<bar> then inf_of x
      else
        let e = max \<lfloor>log 2 \<bar>x\<bar>\<rfloor> (- 1022);
            q = 2 powi (e - 52)
        in Fin (of_int (rne (x / q)) * q))"

fun jsgn :: "jsnum \<Rightarrow> real" where
  "jsgn NaN = 0"
| "jsgn PInf = 1"
| "jsgn NInf = - 1"
| "jsgn (Fin a) = sgn a"

fun jneg :: "jsnum \<Rightarrow> jsnum" where
  "jneg NaN = NaN"
| "jneg PInf = NInf"
| "jneg NInf = PInf"
| "jneg (Fin a) = Fin (- a)"

fun jadd :: "jsnum \<Rightarrow> jsnum \<Rightarrow> jsnum" where
  "jadd (Fin a) (Fin b) = round64 (a + b)"
| "jadd NaN y = NaN"
| "jadd x NaN = NaN"
| "jadd PInf NInf = NaN"
| "jadd NInf PInf = NaN"
| "jadd PInf y = PInf"
| "jadd NInf y = NInf"
| "jadd (Fin a) y = y"

definition jsub :: "jsnum \<Rightarrow> jsnum \<Rightarrow> jsnum" where
  "jsub x y = jadd x (jneg y)"

definition jmul :: "jsnum \<Rightarrow> jsnum \<Rightarrow> jsnum" where
  \<comment> \<open>a product with an infinity has the sign of the product; infinity times zero is NaN\<close>
  "jmul x y =
     (case (x, y) of
        (Fin a, Fin b) \<Rightarrow> round64 (a * b)
      | _ \<Rightarrow> if x = NaN \<or> y = NaN then NaN else inf_of (jsgn x * jsgn y))"

definition jdiv :: "jsnum \<Rightarrow> jsnum \<Rightarrow> jsnum" where
  \<comment> \<open>a non-zero number over zero is an infinity, zero over zero is NaN\<close>
  "jdiv x y =
     (case (x, y) of
        (Fin a, Fin b) \<Rightarrow> if b = 0 then inf_of a else round64 (a / b)
      | (Fin a, _) \<Rightarrow> if y = NaN then NaN else Fin 0
      | (_, Fin b) \<Rightarrow> if x = NaN then NaN else inf_of (jsgn x * (if b < 0 then - 1 else 1))
      | _ \<Rightarrow> NaN)"

definition is_integral :: "real \<Rightarrow> bool" where
  "is_integral y = (y = of_int \<lfloor>y\<rfloor>)"

definition real_pow :: "real \<Rightarrow> real \<Rightarrow> real" where
  \<comment> \<open>the exact power of a non-zero base; a negative base only has integral exponents\<close>
  "real_pow x y = (if is_integral y then x powi \<lfloor>y\<rfloor> else x powr y)"

text \<open>
  \<open>Math.pow\<close>, by the cases of the language standard (Number::exponentiate). For finite
  operands the standard leaves the precision to the implementation; the result is taken
  as the exact power rounded to a double.
\<close>

fun Math_pow :: "jsnum \<Rightarrow> jsnum \<Rightarrow> jsnum" where
  "Math_pow b NaN = NaN"
| "Math_pow b (Fin y) =
     (if y = 0 then Fin 1
      else case b of
        NaN \<Rightarrow> NaN
      | PInf \<Rightarrow> (if 0 < y then PInf else Fin 0)
      | NInf \<Rightarrow> (if 0 < y then (if is_integral y \<and> odd \<lfloor>y\<rfloor> then NInf else PInf) else Fin 0)
      | Fin x \<Rightarrow>
          (if x = 0 then (if 0 < y then Fin 0 else PInf)
           else if x < 0 \<and> \<not> is_integral y then NaN
           else round64 (real_pow x y)))"
| "Math_pow b PInf =
     (case b of
        NaN \<Rightarrow> NaN
      | Fin x \<Rightarrow> (if 1 < \<bar>x\<bar> then PInf else if \<bar>x\<bar> = 1 then NaN else Fin 0)
      | _ \<Rightarrow> PInf)"
| "Math_pow b NInf =
     (case b of
        NaN \<Rightarrow> NaN
      | Fin x \<Rightarrow> (if 1 < \<bar>x\<bar> then Fin 0 else if \<bar>x\<bar> = 1 then NaN else PInf)
      | _ \<Rightarrow> Fin 0)"

text \<open>
  Truthiness of a \<open>number | null\<close> value, as \<open>!v\<close> tests it: \<open>null\<close>, NaN and zero are
  falsy, every other number (a negative one and an infinity too) is truthy.
\<close>

fun truthy :: "jsnum option \<Rightarrow> bool" where
  "truthy None = False"
| "truthy (Some NaN) = False"
| "truthy (Some (Fin a)) = (a \<noteq> 0)"
| "truthy (Some PInf) = True"
| "truthy (Some NInf) = True"

section \<open>JavaScript strings\<close>

text \<open>
  A string is its sequence of UTF-16 code units, each a natural number. \<open>str\<close> writes a
  string of the model from a literal.
\<close>

type_synonym jsstring = "nat list"

definition str :: "string \<Rightarrow> jsstring" where
  "str s = map of_char s"

definition is_digit :: "nat \<Rightarrow> bool" where
  "is_digit c = (48 \<le> c \<and> c \<le> 57)"

definition is_space :: "nat \<Rightarrow> bool" where
  \<comment> \<open>the class \<open>\s\<close> of a regular expression: white space and line terminators\<close>
  "is_space c =
     (c = 9 \<or> c = 10 \<or> c = 11 \<or> c = 12 \<or> c = 13 \<or> c = 32 \<or> c = 160 \<or> c = 5760
      \<or> (8192 \<le> c \<and> c \<le> 8202) \<or> c = 8232 \<or> c = 8233 \<or> c = 8239 \<or> c = 8287
      \<or> c = 12288 \<or> c = 65279)"

definition DOT :: nat where "DOT = 46"
definition COMMA :: nat where "COMMA = 44"

fun digits_value :: "jsstring \<Rightarrow> nat \<Rightarrow> nat" where
  \<comment> \<open>the value of a run of decimal digits, after the digits already read\<close>
  "digits_value [] acc = acc"
| "digits_value (c # cs) acc = digits_value cs (10 * acc + (c - 48))"

definition frac_value :: "jsstring \<Rightarrow> real" where
  \<comment> \<open>the value of a run of decimal digits read after the decimal point\<close>
  "frac_value ds = real (digits_value ds 0) / 10 ^ length ds"

fun starts_with :: "jsstring \<Rightarrow> jsstring \<Rightarrow> bool" where
  "starts_with s [] = True"
| "starts_with [] (p # ps) = False"
| "starts_with (c # cs) (p # ps) = (c = p \<and> starts_with cs ps)"

fun exponent_part :: "jsstring \<Rightarrow> int" where
  \<comment> \<open>the exponent written at the head of the text: \<open>e\<close> or \<open>E\<close>, an optional sign and
      at least one digit; 0 when there is none\<close>
  "exponent_part [] = 0"
| "exponent_part (c # cs) =
     (if c = 101 \<or> c = 69 then
        (case cs of
           [] \<Rightarrow> 0
         | s # ds \<Rightarrow>
             if s = 45 then - int (digits_value (takeWhile is_digit ds) 0)
             else if s = 43 then int (digits_value (takeWhile is_digit ds) 0)
             else int (digits_value (takeWhile is_digit cs) 0))
      else 0)"

definition unsigned_literal :: "jsstring \<Rightarrow> jsnum" where
  \<comment> \<open>the longest prefix that is an unsigned decimal literal, its value rounded to a
      double; NaN when there is none\<close>
  "unsigned_literal s =
     (if starts_with s (str ''Infinity'') then PInf
      else
        let ip = takeWhile is_digit s;
            r1 = dropWhile is_digit s;
            has_dot = starts_with r1 [DOT];
            fp = (if has_dot then takeWhile is_digit (tl r1) else []);
            r2 = (if has_dot then dropWhile is_digit (tl r1) else r1)
        in if ip = [] \<and> fp = [] then NaN
           else round64
                  ((real (digits_value ip 0) + frac_value fp) * 10 powi exponent_part r2))"

definition parseFloat :: "jsstring \<Rightarrow> jsnum" where
  \<comment> \<open>the built-in: leading white space is skipped, then a sign and the longest prefix
      that is a decimal literal are read; the rest of the text is ignored\<close>
  "parseFloat s =
     (let t = dropWhile is_space s
      in if starts_with t [45] then jneg (unsigned_literal (tl t))
         else if starts_with t [43] then unsigned_literal (tl t)
         else unsigned_literal t)"

section \<open>The amount field: sanitising and parsing\<close>

datatype error = TypeError

definition sanitizeInput :: "jsstring \<Rightarrow> jsstring" where
  "sanitizeInput input = filter (\<lambda>c. \<not> is_space c) input"

definition valid_char :: "nat \<Rightarrow> bool" where
  "valid_char c = (is_digit c \<or> c = DOT \<or> c = COMMA)"

definition hasInvalidCharacters :: "jsstring \<Rightarrow> bool" where
  "hasInvalidCharacters input = list_ex (\<lambda>c. \<not> valid_char c) input"

definition shouldShowError :: "int \<Rightarrow> bool" where
  \<comment> \<open>the argument is \<open>window.innerWidth\<close>\<close>
  "shouldShowError innerWidth = (1010 < innerWidth)"

fun split :: "nat \<Rightarrow> jsstring \<Rightarrow> jsstring list" where
  \<comment> \<open>\<open>s.split(c)\<close>: the pieces of \<open>s\<close> between the occurrences of \<open>c\<close>\<close>
  "split c [] = [[]]"
| "split c (x # xs) =
     (if x = c then [] # split c xs
      else case split c xs of
             [] \<Rightarrow> [[x]]
           | p # ps \<Rightarrow> (x # p) # ps)"

fun element :: "'a list \<Rightarrow> nat \<Rightarrow> 'a option" where
  \<comment> \<open>an array element; \<open>undefined\<close> past the end\<close>
  "element [] i = None"
| "element (x # xs) 0 = Some x"
| "element (x # xs) (Suc i) = element xs i"

definition parseCurrency :: "jsstring \<Rightarrow> error + jsnum" where
  "parseCurrency input =
     (let cleanDecimal = filter (\<lambda>c. c \<noteq> DOT) (filter (\<lambda>c. c \<noteq> COMMA) input);
          pieces = split DOT input;
          integer = element pieces 0;
          decimal = element pieces 1
      in case decimal of
           None \<Rightarrow> Inr (parseFloat cleanDecimal)
         | Some d \<Rightarrow>
             if d \<noteq> [] then
               (case integer of
                  None \<Rightarrow> Inl TypeError
                | Some i \<Rightarrow> Inr (parseFloat (filter is_digit i @ [DOT] @ d)))
             else Inr (parseFloat cleanDecimal))"

section \<open>The form and its operations\<close>

datatype LoanType = repayment | interest_only

record CalculationResult =
  monthly :: jsnum
  total :: jsnum

datatype event = calculated CalculationResult | clear

text \<open>
  The reactive state of the form component. A field of type \<open>number | null\<close> is an
  optional number, \<open>None\<close> being \<open>null\<close>.
\<close>

record form =
  amountInput :: jsstring
  amount :: "jsnum option"
  term' :: "jsnum option"
  rate :: "jsnum option"
  type' :: LoanType
  showAmountError :: bool

text \<open>
  \<open>term'\<close> and \<open>type'\<close> are the source's \<open>term\<close> and \<open>type\<close>. Of the initial values of
  the source, \<open>INITIAL_TERM\<close> and \<open>INITIAL_RATE\<close> are \<open>null\<close>.
\<close>

definition INITIAL_TYPE :: LoanType where
  "INITIAL_TYPE = repayment"

definition initial_form :: form where
  "initial_form =
     \<lparr>amountInput = [], amount = None, term' = None, rate = None,
      type' = INITIAL_TYPE, showAmountError = False\<rparr>"

text \<open>
  The watcher of \<open>amountInput\<close>, run with the new text and the width of the window. An
  exception of \<open>parseCurrency\<close> leaves the callback, so it is the callback's result.
\<close>

definition watch_amountInput :: "jsstring \<Rightarrow> int \<Rightarrow> form \<Rightarrow> error + form" where
  "watch_amountInput newValue innerWidth s =
     (let cleanedValue = sanitizeInput newValue
      in if hasInvalidCharacters cleanedValue then
           Inr (s\<lparr>showAmountError := shouldShowError innerWidth, amount := None\<rparr>)
         else
           (case parseCurrency cleanedValue of
              Inl e \<Rightarrow> Inl e
            | Inr n \<Rightarrow> Inr (s\<lparr>showAmountError := False, amount := Some n\<rparr>)))"

definition calculateRepayment :: "jsnum \<Rightarrow> jsnum \<Rightarrow> jsnum \<Rightarrow> jsnum" where
  "calculateRepayment principal' monthlyRate months =
     (let discountFactor = Math_pow (jadd (Fin 1) monthlyRate) (jneg months)
      in jdiv (jmul principal' monthlyRate) (jsub (Fin 1) discountFactor))"

definition calculateInterestOnly :: "jsnum \<Rightarrow> jsnum \<Rightarrow> jsnum" where
  "calculateInterestOnly principal' monthlyRate = jmul principal' monthlyRate"

fun ToNumber :: "jsnum option \<Rightarrow> jsnum" where
  \<comment> \<open>the conversion of an operand of arithmetic: \<open>null\<close> counts as zero\<close>
  "ToNumber None = Fin 0"
| "ToNumber (Some x) = x"

text \<open>
  \<open>calculate\<close> and \<open>clearAll\<close> return the state of the form after the call and the events
  they emit, in order. Taking the focus from the active element, which \<open>clearAll\<close> also
  does, changes no state of the form.
\<close>

definition calculate :: "form \<Rightarrow> form \<times> event list" where
  "calculate s =
     (if \<not> truthy (amount s) \<or> \<not> truthy (term' s) \<or> \<not> truthy (rate s) then (s, [])
      else
        let principal' = ToNumber (amount s);
            months = jmul (ToNumber (term' s)) (Fin 12);
            monthlyRate = jdiv (jdiv (ToNumber (rate s)) (Fin 100)) (Fin 12);
            monthlyPayment =
              (if type' s = repayment then calculateRepayment principal' monthlyRate months
               else calculateInterestOnly principal' monthlyRate)
        in (s, [calculated \<lparr>monthly = monthlyPayment, total = jmul monthlyPayment months\<rparr>]))"

definition clearAll :: "form \<Rightarrow> form \<times> event list" where
  "clearAll s =
     (s\<lparr>amountInput := [], amount := None, term' := None, rate := None,
        type' := INITIAL_TYPE\<rparr>,
      [clear])"

text \<open>
  Two readings of a \<open>number | null\<close> field used in the statements below: a strictly
  positive number, and a value that the guard of \<open>calculate\<close> takes as missing.
\<close>

fun strictly_positive :: "jsnum option \<Rightarrow> bool" where
  "strictly_positive (Some (Fin a)) = (0 < a)"
| "strictly_positive (Some PInf) = True"
| "strictly_positive v = False"

definition unusable :: "jsnum option \<Rightarrow> bool" where
  "unusable v = (v = None \<or> v = Some NaN \<or> v = Some (Fin 0))"

section \<open>The specification's reading of the amount\<close>

text \<open>
  The specification's words for a text with a point: the text before the last point
  gives the integer part, all but its digits being dropped, and the text after the last
  point is the decimal part; the two are joined by a point and read as a decimal number.
\<close>

definition normalize_at_last_dot :: "jsstring \<Rightarrow> jsnum" where
  "normalize_at_last_dot s =
     (let decimalPart = rev (takeWhile (\<lambda>c. c \<noteq> DOT) (rev s));
          integerPart = rev (tl (dropWhile (\<lambda>c. c \<noteq> DOT) (rev s)))
      in parseFloat (filter is_digit integerPart @ [DOT] @ decimalPart))"

section \<open>The form inside the application\<close>

text \<open>
  Modelled from the spec: the parent component, which holds the result shown by the
  result panel and is not among the sources. Following the specification, a
  \<open>calculated\<close> event replaces the result by the emitted record and a \<open>clear\<close> event
  removes it.
\<close>

fun parent_on :: "event \<Rightarrow> CalculationResult option \<Rightarrow> CalculationResult option" where
  "parent_on (calculated r) res = Some r"
| "parent_on clear res = None"

definition deliver :: "event list \<Rightarrow> CalculationResult option \<Rightarrow> CalculationResult option" where
  "deliver es res = foldl (\<lambda>r e. parent_on e r) res es"

record app =
  core :: form
  result :: "CalculationResult option"
  innerWidth :: int

datatype action =
    input_amount jsstring
  | input_term "jsnum option"
  | input_rate "jsnum option"
  | select_type LoanType
  | submit
  | click_clear
  | resize int

text \<open>
  One user action. Typing in the amount field sets \<open>amountInput\<close>, and a watcher runs when
  the watched text has changed: after typing, and after \<open>clearAll\<close> has emptied a
  non-empty text (the watcher is scheduled, so it runs once \<open>clearAll\<close> has returned).
  Submitting the form calls \<open>calculate\<close>, the "Clear all" control calls \<open>clearAll\<close>.
\<close>

fun step :: "action \<Rightarrow> app \<Rightarrow> error + app \<times> event list" where
  "step (input_amount newValue) a =
     (if newValue = amountInput (core a) then Inr (a, [])
      else case watch_amountInput newValue (innerWidth a)
                  ((core a)\<lparr>amountInput := newValue\<rparr>) of
             Inl e \<Rightarrow> Inl e
           | Inr s \<Rightarrow> Inr (a\<lparr>core := s\<rparr>, []))"
| "step (input_term v) a = Inr (a\<lparr>core := (core a)\<lparr>term' := v\<rparr>\<rparr>, [])"
| "step (input_rate v) a = Inr (a\<lparr>core := (core a)\<lparr>rate := v\<rparr>\<rparr>, [])"
| "step (select_type t) a = Inr (a\<lparr>core := (core a)\<lparr>type' := t\<rparr>\<rparr>, [])"
| "step submit a =
     (case calculate (core a) of
        (s, es) \<Rightarrow> Inr (a\<lparr>core := s, result := deliver es (result a)\<rparr>, es))"
| "step click_clear a =
     (case clearAll (core a) of
        (s, es) \<Rightarrow>
          (case (if amountInput (core a) = [] then Inr s
                 else watch_amountInput [] (innerWidth a) s) of
             Inl e \<Rightarrow> Inl e
           | Inr s' \<Rightarrow> Inr (a\<lparr>core := s', result := deliver es (result a)\<rparr>, es)))"
| "step (resize w) a = Inr (a\<lparr>innerWidth := w\<rparr>, [])"

fun run :: "action list \<Rightarrow> app \<Rightarrow> error + app \<times> event list" where
  "run [] a = Inr (a, [])"
| "run (x # xs) a =
     (case step x a of
        Inl e \<Rightarrow> Inl e
      | Inr (a', es) \<Rightarrow>
          (case run xs a' of
             Inl e \<Rightarrow> Inl e
           | Inr (a'', es') \<Rightarrow> Inr (a'', es @ es')))"

section \<open>Concrete inputs and the value of a decimal\<close>

text \<open>
  The double nearest to the decimal number written with the integer digits \<open>ip\<close> and
  the decimal digits \<open>fp\<close>; NaN when there is no digit at all.
\<close>

definition decimal_number :: "jsstring \<Rightarrow> jsstring \<Rightarrow> jsnum" where
  "decimal_number ip fp =
     (if ip = [] \<and> fp = [] then NaN
      else round64 (real (digits_value ip 0) + frac_value fp))"

text \<open>Forms used as concrete inputs below, each the initial form with some fields filled.\<close>

definition form_100000_25_5 :: form where
  "form_100000_25_5 =
     initial_form\<lparr>amount := Some (Fin 100000), term' := Some (Fin 25), rate := Some (Fin 5)\<rparr>"

definition form_negative_rate :: form where
  "form_negative_rate =
     initial_form\<lparr>amount := Some (Fin 100), term' := Some (Fin 1), rate := Some (Fin (- 12)),
       type' := interest_only\<rparr>"

definition form_zero_rate :: form where
  "form_zero_rate =
     initial_form\<lparr>amount := Some (Fin 100000), term' := Some (Fin 25), rate := Some (Fin 0)\<rparr>"

definition form_interest_only :: form where
  "form_interest_only =
     initial_form\<lparr>amount := Some (Fin 100000), term' := Some (Fin 25), rate := Some (Fin 5),
       type' := interest_only\<rparr>"


definition form_flagged :: form where
  "form_flagged = initial_form\<lparr>amountInput := str ''12a'', showAmountError := True\<rparr>"

text \<open>
  The application as it starts, in a window 1280 pixels wide; the application with a
  filled form and a result on display; and a session of user actions.
\<close>

definition initial_app :: app where
  "initial_app = \<lparr>core = initial_form, result = None, innerWidth = 1280\<rparr>"

definition app_interest_only :: app where
  "app_interest_only =
     \<lparr>core = initial_form\<lparr>amountInput := str ''100'', amount := Some (Fin 100),
               term' := Some (Fin 1), rate := Some (Fin 12), type' := interest_only\<rparr>,
      result = Some \<lparr>monthly = Fin 5, total = Fin 60\<rparr>, innerWidth = 1280\<rparr>"

definition session :: "action list" where
  "session =
     [input_amount (str ''1,234.56''), input_term (Some (Fin 1)), input_rate (Some (Fin 12)),
      select_type interest_only, submit, click_clear, submit,
      input_amount (str ''100''), input_term (Some (Fin 1)), input_rate (Some (Fin 12)),
      select_type interest_only, submit]"

section \<open>Rounding at concrete numbers\<close>

text \<open>
  A value between \<open>2 powi e\<close> and \<open>2 powi (e + 1)\<close>, with \<open>e\<close> in the range of the normal
  doubles, is rounded to a multiple of \<open>2 powi (e - 52)\<close>.
\<close>

lemma round64_eval:
  assumes "2 powi e \<le> \<bar>x\<bar>" and "\<bar>x\<bar> < 2 powi (e + 1)" and "- 1022 \<le> e" and "e < 1023"
    and "rne (x / 2 powi (e - 52)) = n" and "y = of_int n * 2 powi (e - 52)"
  shows "round64 x = Fin y"
proof -
  have pos: "0 < \<bar>x\<bar>" using assms(1) by (smt (verit) zero_less_power_int)
  then have nz: "x \<noteq> 0" by simp
  have "(2::real) powr real_of_int e = 2 powi e"
    "(2::real) powr (real_of_int e + 1) = 2 powi (e + 1)"
    using powr_real_of_int'[of "2::real" e] powr_real_of_int'[of "2::real" "e + 1"] by simp_all
  then have "2 powr real_of_int e \<le> \<bar>x\<bar>" "\<bar>x\<bar> < 2 powr (real_of_int e + 1)"
    using assms(1,2) by simp_all
  then have fl: "\<lfloor>log 2 \<bar>x\<bar>\<rfloor> = e"
    using floor_log_eq_powr_iff[of "\<bar>x\<bar>" 2 e] pos by simp
  have "(2::real) powi (e + 1) \<le> 2 powi 1023"
    using assms(4) by (intro power_int_increasing) simp_all
  also have "(2::real) powi 1023 < 2 ^ 1024 - 2 ^ 970" by simp
  finally have small: "\<not> 2 ^ 1024 - 2 ^ 970 \<le> \<bar>x\<bar>" using assms(2) by simp
  show ?thesis
    using nz small fl assms(3,5,6) by (simp add: round64_def max_def Let_def)
qed




lemma jmul_eval: "round64 (a * b) = Fin y \<Longrightarrow> jmul (Fin a) (Fin b) = Fin y"
  by (simp add: jmul_def)

lemma jdiv_eval: "b \<noteq> 0 \<Longrightarrow> round64 (a / b) = Fin y \<Longrightarrow> jdiv (Fin a) (Fin b) = Fin y"
  by (simp add: jdiv_def)

text \<open>The steps of the calculations used below, each one rounding.\<close>

lemma months_1: "jmul (Fin 1) (Fin 12) = Fin 12"
  by (rule jmul_eval, rule round64_eval[where e = "3" and n = "6755399441055744"])
     (simp_all add: rne_def)

lemma months_25: "jmul (Fin 25) (Fin 12) = Fin 300"
  by (rule jmul_eval, rule round64_eval[where e = "8" and n = "5277655813324800"])
     (simp_all add: rne_def)

lemma rate_m12_a: "jdiv (Fin (- 12)) (Fin 100) = Fin (- (1080863910568919 / 9007199254740992))"
  by (rule jdiv_eval, simp, rule round64_eval[where e = "- 4" and n = "- 8646911284551352"])
     (simp_all add: rne_def)

lemma rate_m12_b: "jdiv (Fin (- (1080863910568919 / 9007199254740992))) (Fin 12) = Fin (- (5764607523034235 / 576460752303423488))"
  by (rule jdiv_eval, simp, rule round64_eval[where e = "- 7" and n = "- 5764607523034235"])
     (simp_all add: rne_def)

lemma monthly_m12: "jmul (Fin 100) (Fin (- (5764607523034235 / 576460752303423488))) = Fin (- 1)"
  by (rule jmul_eval, rule round64_eval[where e = "0" and n = "- 4503599627370496"])
     (simp_all add: rne_def)

lemma total_m12: "jmul (Fin (- 1)) (Fin 12) = Fin (- 12)"
  by (rule jmul_eval, rule round64_eval[where e = "3" and n = "- 6755399441055744"])
     (simp_all add: rne_def)





lemma rate_5_a: "jdiv (Fin 5) (Fin 100) = Fin (3602879701896397 / 72057594037927936)"
  by (rule jdiv_eval, simp, rule round64_eval[where e = "- 5" and n = "7205759403792794"])
     (simp_all add: rne_def)

lemma rate_5_b: "jdiv (Fin (3602879701896397 / 72057594037927936)) (Fin 12) = Fin (4803839602528529 / 1152921504606846976)"
  by (rule jdiv_eval, simp, rule round64_eval[where e = "- 8" and n = "4803839602528529"])
     (simp_all add: rne_def)

lemma monthly_5: "jmul (Fin 100000) (Fin (4803839602528529 / 1152921504606846976)) = Fin (7330077518506667 / 17592186044416)"
  by (rule jmul_eval, rule round64_eval[where e = "8" and n = "7330077518506667"])
     (simp_all add: rne_def)

lemma total_5: "jmul (Fin (7330077518506667 / 17592186044416)) (Fin 300) = Fin 125000"
  by (rule jmul_eval, rule round64_eval[where e = "16" and n = "8589934592000000"])
     (simp_all add: rne_def)

lemma monthly_5_times_25: "jmul (Fin (7330077518506667 / 17592186044416)) (Fin 25) = Fin (2863311530666667 / 274877906944)"
  by (rule jmul_eval, rule round64_eval[where e = "13" and n = "5726623061333334"])
     (simp_all add: rne_def)

lemma monthly_5_times_25_times_12: "jmul (Fin (2863311530666667 / 274877906944)) (Fin 12) = Fin (8589934592000001 / 68719476736)"
  by (rule jmul_eval, rule round64_eval[where e = "16" and n = "8589934592000001"])
     (simp_all add: rne_def)

lemma rate_12_a: "jdiv (Fin 12) (Fin 100) = Fin (1080863910568919 / 9007199254740992)"
  by (rule jdiv_eval, simp, rule round64_eval[where e = "- 4" and n = "8646911284551352"])
     (simp_all add: rne_def)

lemma rate_12_b: "jdiv (Fin (1080863910568919 / 9007199254740992)) (Fin 12) = Fin (5764607523034235 / 576460752303423488)"
  by (rule jdiv_eval, simp, rule round64_eval[where e = "- 7" and n = "5764607523034235"])
     (simp_all add: rne_def)

lemma round64_1234_56: "round64 (30864 / 25) = Fin (2714826150374277 / 2199023255552)"
  by (rule round64_eval[where e = "10" and n = "5429652300748554"]) (simp_all add: rne_def)

lemma monthly_1234_56: "jmul (Fin (2714826150374277 / 2199023255552)) (Fin (5764607523034235 / 576460752303423488)) = Fin (6949954944958149 / 562949953421312)"
  by (rule jmul_eval, rule round64_eval[where e = "3" and n = "6949954944958149"])
     (simp_all add: rne_def)

lemma total_1234_56: "jmul (Fin (6949954944958149 / 562949953421312)) (Fin 12) = Fin (1303116552179653 / 8796093022208)"
  by (rule jmul_eval, rule round64_eval[where e = "7" and n = "5212466208718612"])
     (simp_all add: rne_def)

lemma round64_100: "round64 (100) = Fin 100"
  by (rule round64_eval[where e = "6" and n = "7036874417766400"]) (simp_all add: rne_def)

lemma monthly_100: "jmul (Fin 100) (Fin (5764607523034235 / 576460752303423488)) = Fin 1"
  by (rule jmul_eval, rule round64_eval[where e = "0" and n = "4503599627370496"])
     (simp_all add: rne_def)

lemma round64_1_2: "round64 (6 / 5) = Fin (5404319552844595 / 4503599627370496)"
  by (rule round64_eval[where e = "0" and n = "5404319552844595"]) (simp_all add: rne_def)

lemma round64_12_3: "round64 (123 / 10) = Fin (3462142213541069 / 281474976710656)"
  by (rule round64_eval[where e = "3" and n = "6924284427082138"]) (simp_all add: rne_def)

lemma round64_2_53_plus: "round64 (18014398509481987 / 2) = Fin 9007199254740994"
  by (rule round64_eval[where e = "53" and n = "4503599627370497"]) (simp_all add: rne_def)

section \<open>The calculation\<close>

lemma truthy_iff: "truthy v \<longleftrightarrow> \<not> unusable v"
  by (cases v rule: truthy.cases) (simp_all add: unusable_def)






text \<open>With three positive numbers in the form the guard passes and one event is emitted.\<close>

lemma calculate_positive:
  assumes "amount s = Some (Fin P)" "term' s = Some (Fin T)" "rate s = Some (Fin R)"
    and "0 < P" "0 < T" "0 < R"
  shows "calculate s =
    (s, [calculated
          \<lparr>monthly =
             (if type' s = repayment
              then calculateRepayment (Fin P) (jdiv (jdiv (Fin R) (Fin 100)) (Fin 12))
                     (jmul (Fin T) (Fin 12))
              else calculateInterestOnly (Fin P) (jdiv (jdiv (Fin R) (Fin 100)) (Fin 12))),
           total =
             jmul (if type' s = repayment
                   then calculateRepayment (Fin P) (jdiv (jdiv (Fin R) (Fin 100)) (Fin 12))
                          (jmul (Fin T) (Fin 12))
                   else calculateInterestOnly (Fin P) (jdiv (jdiv (Fin R) (Fin 100)) (Fin 12)))
               (jmul (Fin T) (Fin 12))\<rparr>])"
  using assms by (simp add: calculate_def Let_def)




text \<open>
  Claim C4 says that the emitted total equals the emitted monthly payment times the term
  in years times 12, exactly. The code multiplies the payment by \<open>months = term * 12\<close>,
  and products of doubles are rounded: for an interest-only mortgage of 100000 over 25
  years at 5 percent the payment is 416.6666666666667 and the total 125000, while the
  payment times 25 times 12 is 125000.00000000001.
\<close>

theorem calculate_total_not_associative:
  "calculate form_interest_only =
     (form_interest_only,
      [calculated \<lparr>monthly = Fin (7330077518506667 / 2 ^ 44), total = Fin 125000\<rparr>]) \<and>
   jmul (jmul (Fin (7330077518506667 / 2 ^ 44)) (Fin 25)) (Fin 12) =
     Fin (8589934592000001 / 2 ^ 36) \<and>
   Fin (8589934592000001 / 2 ^ 36) \<noteq> Fin 125000"
  by (simp add: form_interest_only_def initial_form_def calculate_def calculateInterestOnly_def
      Let_def rate_5_a rate_5_b monthly_5 months_25 total_5 monthly_5_times_25
      monthly_5_times_25_times_12)

text \<open>
  Claim C4, amended. For every calculation with present, strictly positive inputs, of
  either type, the emitted total is the product, rounded to a double, of the emitted
  monthly payment and \<open>months\<close>, where \<open>months\<close> is the rounded product of the term in years
  and 12.
\<close>

theorem calculate_total_repaid:
  assumes "amount s = Some (Fin P)" and "term' s = Some (Fin T)" and "rate s = Some (Fin R)"
    and "0 < P" and "0 < T" and "0 < R"
  shows "\<exists>r. calculate s = (s, [calculated r]) \<and>
           total r = jmul (monthly r) (jmul (Fin T) (Fin 12))"
  using calculate_positive[OF assms] by simp

theorem calculate_total_repaid_witness:
  "\<exists>r. calculate form_interest_only = (form_interest_only, [calculated r]) \<and>
       total r = jmul (monthly r) (Fin 300)"
  using calculate_total_repaid[of form_interest_only 100000 25 5]
  by (simp add: form_interest_only_def initial_form_def months_25)

text \<open>
  Claim C2 says that \<open>calculate\<close> does nothing whenever the amount, the term or the rate
  is absent or not strictly positive, a negative value included. The guard of
  \<open>calculate\<close> tests truthiness, and a negative number is truthy: with an amount of 100,
  a term of 1 year and a rate of -12 percent on an interest-only mortgage, \<open>calculate\<close>
  emits a monthly payment of -1 and a total of -12.
\<close>

theorem calculate_negative_rate_emits:
  "\<not> strictly_positive (rate form_negative_rate) \<and>
   calculate form_negative_rate =
     (form_negative_rate, [calculated \<lparr>monthly = Fin (- 1), total = Fin (- 12)\<rparr>])"
  by (simp add: form_negative_rate_def initial_form_def calculate_def calculateInterestOnly_def
      Let_def rate_m12_a rate_m12_b monthly_m12 months_1 total_m12)

text \<open>
  Claim C2, amended. \<open>calculate\<close> never changes the form, and it emits nothing exactly
  when the amount, the term or the rate is absent (\<open>null\<close>), NaN or zero; in that case
  the call is a no-op.
\<close>

theorem calculate_guard:
  "fst (calculate s) = s \<and>
   (snd (calculate s) = [] \<longleftrightarrow>
      unusable (amount s) \<or> unusable (term' s) \<or> unusable (rate s))"
  by (simp add: calculate_def truthy_iff Let_def)

theorem calculate_guard_witness:
  "unusable (amount initial_form) \<and> calculate initial_form = (initial_form, [])"
  using calculate_guard[of initial_form]
  by (simp add: initial_form_def unusable_def prod_eq_iff)

text \<open>
  Claim C6 says that with a rate of exactly 0 on a repayment mortgage the repayment
  formula is reached and evaluated with a zero denominator. Zero is falsy, so the guard
  returns first: with an amount of 100000, a term of 25 years and a rate of 0, \<open>calculate\<close>
  emits nothing.
\<close>

theorem calculate_zero_rate_not_reached:
  "rate form_zero_rate = Some (Fin 0) \<and> type' form_zero_rate = repayment \<and>
   strictly_positive (amount form_zero_rate) \<and> strictly_positive (term' form_zero_rate) \<and>
   calculate form_zero_rate = (form_zero_rate, [])"
  by (simp add: form_zero_rate_def initial_form_def INITIAL_TYPE_def calculate_def)

text \<open>
  Claim C6, amended. When the rate is exactly 0, whatever the type, the guard of
  \<open>calculate\<close> takes the rate as missing and returns before any formula is evaluated:
  nothing is emitted and the form is unchanged.
\<close>

theorem calculate_zero_rate_rejected:
  "rate s = Some (Fin 0) \<Longrightarrow> calculate s = (s, [])"
  by (simp add: calculate_def)

theorem calculate_zero_rate_rejected_witness:
  "rate form_zero_rate = Some (Fin 0) \<and> calculate form_zero_rate = (form_zero_rate, [])"
  using calculate_zero_rate_rejected[of form_zero_rate]
  by (simp add: form_zero_rate_def initial_form_def)

section \<open>Clearing the form\<close>

text \<open>
  Claim C10. \<open>clearAll\<close> sets the amount text to the empty string, the amount, the term
  and the rate to \<open>null\<close> and the type to \<open>repayment\<close>, whatever it was, leaves the error
  flag as it is, and emits \<open>clear\<close>.
\<close>

theorem clearAll_resets:
  fixes s :: form
  shows "clearAll s =
    (\<lparr>amountInput = [], amount = None, term' = None, rate = None, type' = repayment,
      showAmountError = showAmountError s\<rparr>, [clear])"
  by (simp add: clearAll_def INITIAL_TYPE_def)

theorem clearAll_resets_witness:
  "type' form_negative_rate = interest_only \<and>
   clearAll form_negative_rate = (initial_form, [clear])"
  using clearAll_resets[of form_negative_rate]
  by (simp add: form_negative_rate_def initial_form_def INITIAL_TYPE_def)

section \<open>Parsing the amount\<close>

lemma split_not_Nil: "split c s \<noteq> []"
  by (induction s) (auto split: list.splits)

lemma split_no_sep: "c \<notin> set a \<Longrightarrow> split c a = [a]"
  by (induction a) auto

lemma split_append: "c \<notin> set a \<Longrightarrow> split c (a @ c # t) = a # split c t"
  by (induction a) auto

lemma split_sets: "p \<in> set (split c s) \<Longrightarrow> x \<in> set p \<Longrightarrow> x \<in> set s"
proof (induction s arbitrary: p)
  case Nil
  then show ?case by simp
next
  case (Cons y ys)
  obtain q qs where q: "split c ys = q # qs"
    using split_not_Nil[of c ys] by (cases "split c ys") auto
  show ?case
  proof (cases "y = c")
    case True
    then show ?thesis using Cons by auto
  next
    case False
    then have "p = y # q \<or> p \<in> set qs" using Cons.prems(1) q by simp
    then show ?thesis using Cons.IH[of q] Cons.IH[of p] Cons.prems(2) q by auto
  qed
qed

lemma element_1: "element (x # y # ys) 1 = Some y"
  by (simp add: One_nat_def del: One_nat_def[symmetric])

lemma element_in_set: "element xs i = Some x \<Longrightarrow> x \<in> set xs"
  by (induction xs i rule: element.induct) auto

lemma digit_facts:
  "is_digit c \<Longrightarrow> \<not> is_space c" "is_digit c \<Longrightarrow> c \<noteq> 45" "is_digit c \<Longrightarrow> c \<noteq> 43"
  "is_digit c \<Longrightarrow> c \<noteq> 73" "is_digit c \<Longrightarrow> c \<noteq> DOT" "is_digit c \<Longrightarrow> c \<noteq> COMMA"
  by (auto simp: is_digit_def is_space_def DOT_def COMMA_def)

lemma DOT_facts: "\<not> is_space DOT" "\<not> is_digit DOT" "DOT \<noteq> 45" "DOT \<noteq> 43" "DOT \<noteq> 73"
  by (auto simp: is_digit_def is_space_def DOT_def)

lemma Infinity_head: "starts_with (c # cs) (str ''Infinity'') \<Longrightarrow> c = 73"
  by (simp add: str_def)

text \<open>
  A text that begins with a digit or with a point has no leading white space, no sign
  and is not \<open>Infinity\<close>: \<open>parseFloat\<close> reads its digits, point and digits.
\<close>

lemma parseFloat_unsigned:
  assumes "is_digit c \<or> c = DOT"
  shows "parseFloat (c # cs) =
    (let s = c # cs;
         ip = takeWhile is_digit s;
         r1 = dropWhile is_digit s;
         has_dot = starts_with r1 [DOT];
         fp = (if has_dot then takeWhile is_digit (tl r1) else []);
         r2 = (if has_dot then dropWhile is_digit (tl r1) else r1)
     in if ip = [] \<and> fp = [] then NaN
        else round64
               ((real (digits_value ip 0) + frac_value fp) * 10 powi exponent_part r2))"
proof -
  have 1: "\<not> is_space c" "c \<noteq> 45" "c \<noteq> 43" "c \<noteq> 73"
    using assms digit_facts DOT_facts by auto
  have 2: "\<not> starts_with (c # cs) (str ''Infinity'')"
    using Infinity_head 1 by blast
  show ?thesis
    using 1 2 unfolding parseFloat_def unsigned_literal_def by (simp add: Let_def)
qed

lemma takeWhile_digits_dot:
  "list_all is_digit ds \<Longrightarrow> takeWhile is_digit (ds @ DOT # b) = ds"
  by (induction ds) (auto simp: DOT_facts)

lemma dropWhile_digits_dot:
  "list_all is_digit ds \<Longrightarrow> dropWhile is_digit (ds @ DOT # b) = DOT # b"
  by (induction ds) (auto simp: DOT_facts)

lemma parseFloat_digits_dot:
  assumes "list_all is_digit ds"
  shows "parseFloat (ds @ DOT # b) =
    (if ds = [] \<and> takeWhile is_digit b = [] then NaN
     else round64 ((real (digits_value ds 0) + frac_value (takeWhile is_digit b))
                   * 10 powi exponent_part (dropWhile is_digit b)))"
proof -
  obtain c cs where e: "ds @ DOT # b = c # cs" by (cases ds) auto
  have "is_digit c \<or> c = DOT" using e assms by (cases ds) auto
  from parseFloat_unsigned[OF this, of cs] show ?thesis
    unfolding e[symmetric]
    by (simp add: Let_def takeWhile_digits_dot[OF assms] dropWhile_digits_dot[OF assms])
qed

lemma parseFloat_digits:
  assumes "list_all is_digit ds"
  shows "parseFloat ds = (if ds = [] then NaN else round64 (real (digits_value ds 0)))"
proof (cases ds)
  case Nil
  then show ?thesis by (simp add: parseFloat_def unsigned_literal_def str_def)
next
  case (Cons c cs)
  have tw: "takeWhile is_digit ds = ds" "dropWhile is_digit ds = []"
    using assms by (simp_all add: list_all_iff)
  have "is_digit c \<or> c = DOT" using Cons assms by auto
  moreover have ne: "ds \<noteq> []" using Cons by simp
  ultimately show ?thesis
    using parseFloat_unsigned[of c cs] unfolding Cons[symmetric]
    by (simp add: Let_def tw frac_value_def)
qed

text \<open>A number with more digits than a double holds is rounded when it is read.\<close>

lemma parseFloat_rounds: "parseFloat (str ''9007199254740993.5'') = Fin 9007199254740994"
  by (simp add: parseFloat_def unsigned_literal_def str_def is_space_def is_digit_def DOT_def
      frac_value_def round64_2_53_plus)

text \<open>After the digits of a valid text without a point comes a comma or nothing: no exponent.\<close>

lemma exponent_part_after_digits:
  assumes "list_all valid_char b" "DOT \<notin> set b"
  shows "exponent_part (dropWhile is_digit b) = 0"
proof (cases "dropWhile is_digit b")
  case Nil
  show ?thesis unfolding Nil by simp
next
  case (Cons c cs)
  have "c \<in> set b" by (metis Cons list.set_intros(1) set_dropWhileD)
  then have "valid_char c" "c \<noteq> DOT" using assms by (auto simp: list_all_iff)
  moreover have "\<not> is_digit c" using Cons by (metis hd_dropWhile list.sel(1) list.distinct(1))
  ultimately have "c = COMMA" by (simp add: valid_char_def)
  then show ?thesis using Cons by (simp add: COMMA_def)
qed

lemma clean_valid:
  assumes "list_all valid_char s"
  shows "filter (\<lambda>c. c \<noteq> DOT) (filter (\<lambda>c. c \<noteq> COMMA) s) = filter is_digit s"
  using assms by (induction s) (auto simp: valid_char_def digit_facts)

lemma parseFloat_decimal:
  assumes "list_all valid_char b" "DOT \<notin> set b"
  shows "parseFloat (filter is_digit a @ DOT # b) =
         decimal_number (filter is_digit a) (takeWhile is_digit b)"
proof -
  have d: "list_all is_digit (filter is_digit a)" by (simp add: list_all_iff)
  show ?thesis
    by (simp add: parseFloat_digits_dot[OF d] exponent_part_after_digits[OF assms]
        decimal_number_def)
qed

lemma last_dot_parts:
  assumes "DOT \<notin> set b"
  shows "normalize_at_last_dot (a @ DOT # b) = parseFloat (filter is_digit a @ DOT # b)"
proof -
  have "takeWhile (\<lambda>c. c \<noteq> DOT) (rev b @ DOT # rev a) = rev b"
    using assms by (auto simp: takeWhile_tail)
  moreover have "dropWhile (\<lambda>c. c \<noteq> DOT) (rev b @ DOT # rev a) = DOT # rev a"
    using assms by (auto simp: dropWhile_append3)
  ultimately show ?thesis by (simp add: normalize_at_last_dot_def)
qed

lemma parseCurrency_total: "\<exists>n. parseCurrency s = Inr n"
proof -
  obtain p ps where "split DOT s = p # ps"
    using split_not_Nil[of DOT s] by (cases "split DOT s") auto
  then show ?thesis
    by (auto simp: parseCurrency_def Let_def split: option.splits)
qed

lemma parseCurrency_no_digit:
  assumes "list_all valid_char s" and "\<not> list_ex is_digit s"
  shows "parseCurrency s = Inr NaN"
proof -
  have nd: "filter is_digit s = []"
    using assms(2) by (simp add: list_ex_iff filter_empty_conv)
  have clean: "parseFloat (filter (\<lambda>c. c \<noteq> DOT) (filter (\<lambda>c. c \<noteq> COMMA) s)) = NaN"
    unfolding clean_valid[OF assms(1)] nd using parseFloat_digits[of "[]"] by simp
  have piece: "parseFloat (filter is_digit i @ [DOT] @ d) = NaN"
    if "element (split DOT s) 0 = Some i" and "element (split DOT s) 1 = Some d" for i d
  proof -
    have "set i \<subseteq> set s" "set d \<subseteq> set s"
      using that element_in_set[of "split DOT s"] split_sets[of _ DOT s] by blast+
    then have "filter is_digit i = []" "takeWhile is_digit d = []"
      using assms(2) by (auto simp: list_ex_iff filter_empty_conv takeWhile_eq_Nil_iff
          intro: hd_in_set)
    then show ?thesis using parseFloat_digits_dot[of "[]" d] by simp
  qed
  obtain p ps where "split DOT s = p # ps"
    using split_not_Nil[of DOT s] by (cases "split DOT s") auto
  then show ?thesis
    using clean piece unfolding parseCurrency_def Let_def
    by (auto split: option.splits)
qed

text \<open>
  Claim C1 says that for a text of digits, points and commas with at least one point the
  amount is read at the last point: the digits before it are the integer part and the
  text after it the decimal part. \<open>parseCurrency\<close> takes the first two pieces of the text
  split at every point, so \<open>1.2.3\<close> is read as 1.2, where the claim gives 12.3 (the two
  numbers below are the doubles written 1.2 and 12.3).
\<close>

theorem parseCurrency_two_dots:
  "parseCurrency (str ''1.2.3'') = Inr (Fin (5404319552844595 / 2 ^ 52)) \<and>
   normalize_at_last_dot (str ''1.2.3'') = Fin (3462142213541069 / 2 ^ 48) \<and>
   parseCurrency (str ''1.2.3'') \<noteq> Inr (normalize_at_last_dot (str ''1.2.3''))"
  by (simp add: parseCurrency_def normalize_at_last_dot_def str_def DOT_def COMMA_def
      parseFloat_def unsigned_literal_def is_space_def is_digit_def frac_value_def
      round64_1_2 round64_12_3)

text \<open>
  Claim C1, amended. For a text of digits, points and commas with exactly one point,
  \<open>a\<close> before it and \<open>b\<close> after it, \<open>parseCurrency\<close> returns what the specification
  describes, as a double: the double nearest to the decimal number whose integer part is
  the digits of \<open>a\<close> and whose decimal part is \<open>b\<close>, read up to its first comma (an
  infinity when that number is beyond the doubles, NaN when there is no digit on either
  side). With more points, the text between the first and the second point, when it is
  not empty, is the decimal part, and what follows the second point is ignored. The
  witness reads \<open>1,234.56\<close> as the double written 1234.56.
\<close>

theorem parseCurrency_one_dot:
  assumes "list_all valid_char a" and "list_all valid_char b"
    and "DOT \<notin> set a" and "DOT \<notin> set b"
  shows "parseCurrency (a @ DOT # b) = Inr (normalize_at_last_dot (a @ DOT # b)) \<and>
         parseCurrency (a @ DOT # b) =
           Inr (decimal_number (filter is_digit a) (takeWhile is_digit b)) \<and>
         (b \<noteq> [] \<longrightarrow>
            parseCurrency (a @ DOT # b @ DOT # t) =
              Inr (decimal_number (filter is_digit a) (takeWhile is_digit b)))"
proof -
  have pf: "parseFloat (filter is_digit a @ DOT # b) =
        decimal_number (filter is_digit a) (takeWhile is_digit b)"
    using assms(2,4) by (rule parseFloat_decimal)
  have one: "parseCurrency (a @ DOT # b) = Inr (parseFloat (filter is_digit a @ DOT # b))"
  proof (cases "b = []")
    case True
    have "filter (\<lambda>c. c \<noteq> DOT) (filter (\<lambda>c. c \<noteq> COMMA) (a @ [DOT])) = filter is_digit a"
      using clean_valid[of "a @ [DOT]"] assms(1) by (simp add: valid_char_def DOT_facts)
    moreover have "parseFloat (filter is_digit a) = parseFloat (filter is_digit a @ [DOT])"
      using parseFloat_digits[of "filter is_digit a"]
        parseFloat_digits_dot[of "filter is_digit a" "[]"]
      by (simp add: list_all_iff frac_value_def)
    ultimately show ?thesis
      using True assms(3)
      by (simp add: parseCurrency_def split_append element_1 Let_def)
  next
    case False
    then show ?thesis
      using assms(3,4)
      by (simp add: parseCurrency_def split_append split_no_sep element_1 Let_def)
  qed
  have two: "parseCurrency (a @ DOT # b @ DOT # t) = Inr (parseFloat (filter is_digit a @ DOT # b))"
    if "b \<noteq> []"
    using that assms(3,4)
    by (simp add: parseCurrency_def split_append element_1 Let_def)
  show ?thesis
    using one two pf last_dot_parts[OF assms(4), of a] by simp
qed

theorem parseCurrency_one_dot_witness:
  "parseCurrency (str ''1,234.56'') = Inr (Fin (2714826150374277 / 2 ^ 41)) \<and>
   parseCurrency (str ''1,234.56.7'') = Inr (Fin (2714826150374277 / 2 ^ 41))"
  using parseCurrency_one_dot[of "str ''1,234''" "str ''56''" "str ''7''"]
  by (auto simp: str_def DOT_def COMMA_def valid_char_def is_digit_def decimal_number_def
      frac_value_def round64_1234_56)

section \<open>The watcher of the amount text\<close>

lemma watch_total: "\<exists>s'. watch_amountInput newValue w s = Inr s'"
  using parseCurrency_total[of "sanitizeInput newValue"]
  by (auto simp: watch_amountInput_def Let_def)

text \<open>
  Claim C5 says that a text with a character other than a digit, a point or a comma,
  once stripped of white space, sets the amount to \<open>null\<close> and raises the error flag. The
  flag is set to \<open>shouldShowError()\<close>, which is true only in a window wider than 1010
  pixels: for the text \<open>12a3\<close> in a window 800 pixels wide the flag stays down.
\<close>

theorem watch_invalid_narrow_window:
  "hasInvalidCharacters (sanitizeInput (str ''12a3'')) \<and>
   watch_amountInput (str ''12a3'') 800 initial_form =
     Inr (initial_form\<lparr>showAmountError := False, amount := None\<rparr>)"
  by (simp add: watch_amountInput_def shouldShowError_def str_def sanitizeInput_def
      hasInvalidCharacters_def valid_char_def is_space_def is_digit_def DOT_def COMMA_def)

text \<open>
  Claim C5, amended. A text with a character other than a digit, a point or a comma, once
  stripped of white space, sets the amount to \<open>null\<close>, and sets the error flag to whether
  the window is wider than 1010 pixels; nothing else of the form changes.
\<close>

theorem watch_invalid_sets_flag_by_width:
  assumes "hasInvalidCharacters (sanitizeInput newValue)"
  shows "watch_amountInput newValue w s =
           Inr (s\<lparr>showAmountError := (1010 < w), amount := None\<rparr>)"
  using assms by (simp add: watch_amountInput_def shouldShowError_def)

theorem watch_invalid_sets_flag_by_width_witness:
  "hasInvalidCharacters (sanitizeInput (str ''12a3'')) \<and>
   watch_amountInput (str ''12a3'') 1280 initial_form =
     Inr (initial_form\<lparr>showAmountError := True, amount := None\<rparr>)"
  using watch_invalid_sets_flag_by_width[of "str ''12a3''" 1280 initial_form]
  by (simp add: str_def sanitizeInput_def
      hasInvalidCharacters_def valid_char_def is_space_def is_digit_def DOT_def COMMA_def)

text \<open>
  Claim C9. After the watcher has processed a change of the amount text, the error flag
  is up only if the text, stripped of white space, has a character other than a digit, a
  point or a comma; a text without such a character lowers the flag, whatever it was.
\<close>

theorem watch_flag_only_if_invalid:
  "\<exists>s'. watch_amountInput newValue w s = Inr s' \<and>
     (showAmountError s' \<longrightarrow> hasInvalidCharacters (sanitizeInput newValue)) \<and>
     (\<not> hasInvalidCharacters (sanitizeInput newValue) \<longrightarrow> showAmountError s' = False)"
  using parseCurrency_total[of "sanitizeInput newValue"]
  by (auto simp: watch_amountInput_def Let_def)

theorem watch_flag_only_if_invalid_witness:
  "showAmountError form_flagged \<and> \<not> hasInvalidCharacters (sanitizeInput (str ''12'')) \<and>
   (\<exists>s'. watch_amountInput (str ''12'') 1280 form_flagged = Inr s' \<and>
      showAmountError s' = False)"
  using watch_flag_only_if_invalid[of "str ''12''" 1280 form_flagged]
  by (simp add: str_def sanitizeInput_def form_flagged_def
      hasInvalidCharacters_def valid_char_def is_space_def is_digit_def DOT_def COMMA_def)

text \<open>
  Claim C7. For every text the watcher returns without an exception. A text that is
  valid after stripping and has no digit, the empty text for one, gives NaN as amount,
  and \<open>calculate\<close> on the form with that amount emits nothing and changes nothing.
\<close>

theorem watch_never_throws:
  "\<exists>s'. watch_amountInput newValue w s = Inr s' \<and>
     (\<not> hasInvalidCharacters (sanitizeInput newValue) \<and> \<not> list_ex is_digit newValue \<longrightarrow>
        amount s' = Some NaN \<and> calculate s' = (s', []))"
proof (cases "\<not> hasInvalidCharacters (sanitizeInput newValue) \<and> \<not> list_ex is_digit newValue")
  case True
  then have "list_all valid_char (sanitizeInput newValue)"
    "\<not> list_ex is_digit (sanitizeInput newValue)"
    by (auto simp: hasInvalidCharacters_def list_all_iff list_ex_iff sanitizeInput_def)
  then have "parseCurrency (sanitizeInput newValue) = Inr NaN"
    by (rule parseCurrency_no_digit)
  then show ?thesis
    using True by (simp add: watch_amountInput_def calculate_def)
next
  case False
  then show ?thesis using watch_total[of newValue w s] by auto
qed

theorem watch_never_throws_witness:
  "\<exists>s'. watch_amountInput (str []) 1280 form_100000_25_5 = Inr s' \<and>
     amount s' = Some NaN \<and> calculate s' = (s', [])"
  using watch_never_throws[of "str []" 1280 form_100000_25_5]
  by (simp add: str_def sanitizeInput_def hasInvalidCharacters_def)

section \<open>The result in the application\<close>

lemma deliver_last:
  "deliver es res =
     (if es = [] then res else case last es of calculated r \<Rightarrow> Some r | clear \<Rightarrow> None)"
  by (induction es rule: rev_induct) (auto simp: deliver_def split: event.splits)

lemma deliver_append: "deliver (es @ es') res = deliver es' (deliver es res)"
  by (simp add: deliver_def)

lemma step_total: "\<exists>a' es. step x a = Inr (a', es)"
proof (cases x)
  case (input_amount newValue)
  obtain s' where
    "watch_amountInput newValue (innerWidth a) ((core a)\<lparr>amountInput := newValue\<rparr>) = Inr s'"
    using watch_total by blast
  then show ?thesis using input_amount by simp
next
  case click_clear
  obtain s1 es1 where c: "clearAll (core a) = (s1, es1)" by fastforce
  obtain s' where "watch_amountInput [] (innerWidth a) s1 = Inr s'"
    using watch_total by blast
  then show ?thesis using click_clear c by auto
qed (simp_all split: prod.splits)

lemma step_result: "step x a = Inr (a', es) \<Longrightarrow> result a' = deliver es (result a)"
  by (cases x) (auto simp: deliver_def split: prod.splits sum.splits if_splits)

lemma run_total: "\<exists>a' es. run xs a = Inr (a', es)"
proof (induction xs arbitrary: a)
  case Nil
  show ?case by simp
next
  case (Cons x xs)
  obtain a1 es1 where 1: "step x a = Inr (a1, es1)" using step_total by blast
  obtain a2 es2 where 2: "run xs a1 = Inr (a2, es2)" using Cons by blast
  show ?case using 1 2 by simp
qed

lemma run_result: "run xs a = Inr (a', es) \<Longrightarrow> result a' = deliver es (result a)"
proof (induction xs arbitrary: a a' es)
  case Nil
  then show ?case by (simp add: deliver_def)
next
  case (Cons x xs)
  then obtain a1 es1 es2 where 1: "step x a = Inr (a1, es1)" and 2: "run xs a1 = Inr (a', es2)"
    and 3: "es = es1 @ es2"
    by (auto split: sum.splits prod.splits)
  show ?case
    using step_result[OF 1] Cons.IH[OF 2] 3 by (simp add: deliver_append)
qed

text \<open>
  Claim C8. Every sequence of user actions runs to its end, and the result afterwards
  follows the last event emitted: it is the record of that event when the event is
  \<open>calculated\<close>, there is none when the event is \<open>clear\<close>, and it is the result from before
  when nothing was emitted. The "Clear all" control emits \<open>clear\<close> and leaves no result; a
  calculation that succeeds emits its record, which replaces the result; a calculation
  that fails emits nothing and leaves the application as it was. (In the witness, the
  first payment and total are the doubles written 12.3456 and 148.1472.)
\<close>

theorem result_follows_last_event:
  "(\<exists>a' es. run acts a = Inr (a', es) \<and>
      result a' =
        (if es = [] then result a
         else case last es of calculated r \<Rightarrow> Some r | clear \<Rightarrow> None)) \<and>
   (\<exists>b'. step click_clear b = Inr (b', [clear]) \<and> result b' = None) \<and>
   (snd (calculate (core c)) = [calculated r] \<longrightarrow>
      step submit c = Inr (c\<lparr>result := Some r\<rparr>, [calculated r])) \<and>
   (snd (calculate (core d)) = [] \<longrightarrow> step submit d = Inr (d, []))"
proof -
  obtain a' es where 1: "run acts a = Inr (a', es)" using run_total by blast
  have A: "\<exists>a' es. run acts a = Inr (a', es) \<and>
      result a' =
        (if es = [] then result a
         else case last es of calculated r \<Rightarrow> Some r | clear \<Rightarrow> None)"
    using 1 run_result[OF 1] deliver_last[of es "result a"] by simp
  obtain b' es' where 2: "step click_clear b = Inr (b', es')" using step_total by blast
  have B: "\<exists>b'. step click_clear b = Inr (b', [clear]) \<and> result b' = None"
    using 2 step_result[OF 2]
    by (auto simp: clearAll_def deliver_def split: sum.splits if_splits)
  have fst_calc: "fst (calculate s) = s" for s by (simp add: calculate_def Let_def)
  have C: "snd (calculate (core c)) = [calculated r] \<longrightarrow>
      step submit c = Inr (c\<lparr>result := Some r\<rparr>, [calculated r])"
    using fst_calc[of "core c"] by (auto simp: deliver_def split: prod.splits)
  have D: "snd (calculate (core d)) = [] \<longrightarrow> step submit d = Inr (d, [])"
    using fst_calc[of "core d"] by (auto simp: deliver_def split: prod.splits)
  show ?thesis using A B C D by blast
qed

theorem result_follows_last_event_witness:
  "(\<exists>a'. run session initial_app =
            Inr (a', [calculated \<lparr>monthly = Fin (6949954944958149 / 2 ^ 49),
                                  total = Fin (1303116552179653 / 2 ^ 43)\<rparr>,
                      clear, calculated \<lparr>monthly = Fin 1, total = Fin 12\<rparr>]) \<and>
         result a' = Some \<lparr>monthly = Fin 1, total = Fin 12\<rparr>) \<and>
   (\<exists>b'. step click_clear app_interest_only = Inr (b', [clear]) \<and> result b' = None) \<and>
   step submit app_interest_only =
     Inr (app_interest_only\<lparr>result := Some \<lparr>monthly = Fin 1, total = Fin 12\<rparr>\<rparr>,
          [calculated \<lparr>monthly = Fin 1, total = Fin 12\<rparr>]) \<and>
   step submit initial_app = Inr (initial_app, [])"
  using result_follows_last_event[of session initial_app app_interest_only app_interest_only
      "\<lparr>monthly = Fin 1, total = Fin 12\<rparr>" initial_app]
  by (simp add: session_def initial_app_def app_interest_only_def initial_form_def
      INITIAL_TYPE_def str_def watch_amountInput_def sanitizeInput_def hasInvalidCharacters_def
      valid_char_def is_space_def is_digit_def DOT_def COMMA_def parseCurrency_def
      parseFloat_def unsigned_literal_def frac_value_def calculate_def calculateInterestOnly_def
      clearAll_def deliver_def Let_def round64_1234_56 round64_100 rate_12_a rate_12_b
      monthly_1234_56 total_1234_56 monthly_100 months_1)

end
